theory Spec2Isabelle
  imports Complex_Main "HOL-Library.Word"
begin

section \<open>Discord voice support: a shallow embedding of voice-tool.ts\<close>

text \<open>
  The development follows the second half of \<^verbatim>\<open>src/agents/tools/voice-tool.ts\<close>
  (the \<^verbatim>\<open>VoiceManager\<close> class and the module-level singleton). Identifiers keep the
  names of the TypeScript source. Exceptions are values of a sum type, mutation is
  explicit state passing, and the outcome of every external call (file system, HTTP,
  Discord client) is an input of the function that makes the call.
\<close>

subsection \<open>Basic types\<close>

type_synonym guildId = string
type_synonym userId = string
type_synonym channelId = string

text \<open>A Node \<^verbatim>\<open>Buffer\<close> is a sequence of bytes.\<close>

type_synonym byte = "8 word"
type_synonym Buffer = "byte list"

text \<open>
  A JavaScript string is a sequence of UTF-16 code units; \<^verbatim>\<open>.length\<close> counts
  code units. Transcripts contain Japanese text, so they are kept in this form.
\<close>

type_synonym jsstring = "16 word list"

text \<open>
  Every \<^verbatim>\<open>throw new Error(...)\<close> of the source is one constructor, named after the
  error class of the specification where it has one. \<^verbatim>\<open>RangeError\<close> is what Node's
  \<^verbatim>\<open>Buffer.writeUInt16LE/32LE\<close> raise for a value or offset out of range.
\<close>

datatype error =
    NotConnected guildId
  | FileNotFound string
  | RangeError
  | AuthError
  | RemoteError nat string
  | NetworkError
  | IOError
  | CallbackError
  | ConnectionError string
  | LoginError

definition bindE :: "error + 'a \<Rightarrow> ('a \<Rightarrow> error + 'b) \<Rightarrow> error + 'b" where
  "bindE m f = (case m of Inl e \<Rightarrow> Inl e | Inr x \<Rightarrow> f x)"

subsection \<open>WAV encoder (\<^verbatim>\<open>pcmToWav\<close>)\<close>

text \<open>
  \<^verbatim>\<open>Buffer.alloc(n)\<close> is \<open>n\<close> zero bytes. \<^verbatim>\<open>buf.write(str, off)\<close> stores the bytes of an
  ASCII string from offset \<open>off\<close> on and drops what does not fit.
\<close>

definition alloc :: "nat \<Rightarrow> Buffer" where
  "alloc n = replicate n 0"

fun write_at :: "byte list \<Rightarrow> nat \<Rightarrow> Buffer \<Rightarrow> Buffer" where
  "write_at [] off buf = buf"
| "write_at (b # bs) off buf = write_at bs (Suc off) (buf[off := b])"

definition buf_write :: "string \<Rightarrow> nat \<Rightarrow> Buffer \<Rightarrow> Buffer" where
  "buf_write str off buf = write_at (map of_char str) off buf"

text \<open>
  \<^verbatim>\<open>buf.writeUInt32LE(value, off)\<close> and \<^verbatim>\<open>buf.writeUInt16LE(value, off)\<close>: Node first
  checks \<^verbatim>\<open>value > max || value < min\<close> and the offset, and throws a RangeError when
  the check fails; then it stores the value byte by byte, least significant first,
  each store truncating to an integer modulo 256. The value is a JavaScript number;
  \<^verbatim>\<open>byteRate\<close> and \<^verbatim>\<open>blockAlign\<close> are quotients by 8, so values are rationals here.
\<close>

definition le_byte :: "rat \<Rightarrow> nat \<Rightarrow> byte" where
  "le_byte v k = word_of_int (\<lfloor>v\<rfloor> div 256 ^ k)"

definition writeUInt32LE :: "rat \<Rightarrow> nat \<Rightarrow> Buffer \<Rightarrow> error + Buffer" where
  "writeUInt32LE v off buf =
     (if v > 4294967295 \<or> v < 0 \<or> off + 4 > length buf then Inl RangeError
      else Inr (buf[off := le_byte v 0, off + 1 := le_byte v 1,
                    off + 2 := le_byte v 2, off + 3 := le_byte v 3]))"

definition writeUInt16LE :: "rat \<Rightarrow> nat \<Rightarrow> Buffer \<Rightarrow> error + Buffer" where
  "writeUInt16LE v off buf =
     (if v > 65535 \<or> v < 0 \<or> off + 2 > length buf then Inl RangeError
      else Inr (buf[off := le_byte v 0, off + 1 := le_byte v 1]))"

text \<open>
  The encoder, statement by statement. The sample rate, channel count and bit depth
  are integers (the only call site passes 48000, 2 and 16).
\<close>

definition pcmToWav :: "Buffer \<Rightarrow> int \<Rightarrow> int \<Rightarrow> int \<Rightarrow> error + Buffer" where
  "pcmToWav pcm sampleRate channels bitsPerSample =
     (let byteRate = (of_int (sampleRate * channels * bitsPerSample) :: rat) / 8;
          blockAlign = (of_int (channels * bitsPerSample) :: rat) / 8;
          dataSize = int (length pcm);
          headerSize = 44;
          fileSize = int headerSize + dataSize - 8;
          header = alloc headerSize;
          h1 = buf_write ''RIFF'' 0 header
      in bindE (writeUInt32LE (of_int fileSize) 4 h1) (\<lambda>h2.
         let h3 = buf_write ''WAVE'' 8 h2;
             h4 = buf_write ''fmt '' 12 h3
         in bindE (writeUInt32LE 16 16 h4) (\<lambda>h5.
            bindE (writeUInt16LE 1 20 h5) (\<lambda>h6.
            bindE (writeUInt16LE (of_int channels) 22 h6) (\<lambda>h7.
            bindE (writeUInt32LE (of_int sampleRate) 24 h7) (\<lambda>h8.
            bindE (writeUInt32LE byteRate 28 h8) (\<lambda>h9.
            bindE (writeUInt16LE blockAlign 32 h9) (\<lambda>h10.
            bindE (writeUInt16LE (of_int bitsPerSample) 34 h10) (\<lambda>h11.
            let h12 = buf_write ''data'' 36 h11
            in bindE (writeUInt32LE (of_int dataSize) 40 h12) (\<lambda>h13.
               Inr (h13 @ pcm)))))))))))"



text \<open>The inputs for which no header field overflows its width.\<close>

definition wav_fields_fit :: "Buffer \<Rightarrow> int \<Rightarrow> int \<Rightarrow> int \<Rightarrow> bool" where
  "wav_fields_fit pcm sampleRate channels bitsPerSample =
     (0 \<le> sampleRate \<and> sampleRate \<le> 4294967295 \<and>
      0 \<le> channels \<and> channels \<le> 65535 \<and>
      0 \<le> bitsPerSample \<and> bitsPerSample \<le> 65535 \<and>
      sampleRate * channels * bitsPerSample \<le> 8 * 4294967295 \<and>
      channels * bitsPerSample \<le> 8 * 65535 \<and>
      int (length pcm) + 36 \<le> 4294967295)"

text \<open>
  The canonical 44-byte layout, written out field by field: \<^verbatim>\<open>RIFF\<close>, file size,
  \<^verbatim>\<open>WAVE\<close>, \<^verbatim>\<open>fmt \<close>, chunk size 16, format 1 (PCM), channels, sample rate, byte
  rate, block align, bits per sample, \<^verbatim>\<open>data\<close>, data size.
\<close>

definition canonical_header :: "nat \<Rightarrow> int \<Rightarrow> int \<Rightarrow> int \<Rightarrow> Buffer" where
  "canonical_header n sampleRate channels bitsPerSample =
     (let fileSize = of_int (int n + 36) :: rat;
          byteRate = (of_int (sampleRate * channels * bitsPerSample) :: rat) / 8;
          blockAlign = (of_int (channels * bitsPerSample) :: rat) / 8
      in [82, 73, 70, 70,
          le_byte fileSize 0, le_byte fileSize 1, le_byte fileSize 2, le_byte fileSize 3,
          87, 65, 86, 69,
          102, 109, 116, 32,
          16, 0, 0, 0,
          1, 0,
          le_byte (of_int channels) 0, le_byte (of_int channels) 1,
          le_byte (of_int sampleRate) 0, le_byte (of_int sampleRate) 1,
          le_byte (of_int sampleRate) 2, le_byte (of_int sampleRate) 3,
          le_byte byteRate 0, le_byte byteRate 1, le_byte byteRate 2, le_byte byteRate 3,
          le_byte blockAlign 0, le_byte blockAlign 1,
          le_byte (of_int bitsPerSample) 0, le_byte (of_int bitsPerSample) 1,
          100, 97, 116, 97,
          le_byte (of_int (int n)) 0, le_byte (of_int (int n)) 1,
          le_byte (of_int (int n)) 2, le_byte (of_int (int n)) 3])"

subsection \<open>JavaScript strings and regular expressions\<close>

text \<open>
  The characters that \<^verbatim>\<open>String.prototype.trim\<close> strips and that \<^verbatim>\<open>\s\<close> matches are the
  same set (ECMAScript WhiteSpace and LineTerminator): U+0009..U+000D, U+0020, U+00A0,
  U+1680, U+2000..U+200A, U+2028, U+2029, U+202F, U+205F, U+3000, U+FEFF.
\<close>

definition isWhiteSpace :: "16 word \<Rightarrow> bool" where
  "isWhiteSpace c =
     ((0x9 \<le> c \<and> c \<le> 0xD) \<or> c = 0x20 \<or> c = 0xA0 \<or> c = 0x1680 \<or>
      (0x2000 \<le> c \<and> c \<le> 0x200A) \<or> c = 0x2028 \<or> c = 0x2029 \<or> c = 0x202F \<or>
      c = 0x205F \<or> c = 0x3000 \<or> c = 0xFEFF)"

definition trim :: "jsstring \<Rightarrow> jsstring" where
  "trim s = rev (dropWhile isWhiteSpace (rev (dropWhile isWhiteSpace s)))"

text \<open>
  The regular expressions of \<^verbatim>\<open>NOISE_PATTERNS\<close> use character classes, \<^verbatim>\<open>.\<close>, \<^verbatim>\<open>\s\<close>,
  concatenation and the postfix operators \<^verbatim>\<open>+\<close>, \<^verbatim>\<open>*\<close>, \<^verbatim>\<open>?\<close>. A class is a list of
  items; \<^verbatim>\<open>.\<close> matches every code unit but the line terminators U+000A, U+000D,
  U+2028, U+2029.
\<close>

datatype item = One "16 word" | Range "16 word" "16 word" | Space

fun item_ok :: "item \<Rightarrow> 16 word \<Rightarrow> bool" where
  "item_ok (One d) c = (c = d)"
| "item_ok (Range lo hi) c = (lo \<le> c \<and> c \<le> hi)"
| "item_ok Space c = isWhiteSpace c"

datatype rx =
    Never
  | Eps
  | Cls "item list"
  | Dot
  | Seq rx rx
  | Alt rx rx
  | Plus rx
  | Star rx
  | Opt rx

fun nullable :: "rx \<Rightarrow> bool" where
  "nullable Never = False"
| "nullable Eps = True"
| "nullable (Cls is) = False"
| "nullable Dot = False"
| "nullable (Seq a b) = (nullable a \<and> nullable b)"
| "nullable (Alt a b) = (nullable a \<or> nullable b)"
| "nullable (Plus a) = nullable a"
| "nullable (Star a) = True"
| "nullable (Opt a) = True"

text \<open>The derivative of an expression by one code unit.\<close>

fun deriv :: "16 word \<Rightarrow> rx \<Rightarrow> rx" where
  "deriv c Never = Never"
| "deriv c Eps = Never"
| "deriv c (Cls is) = (if list_ex (\<lambda>i. item_ok i c) is then Eps else Never)"
| "deriv c Dot = (if c = 0xA \<or> c = 0xD \<or> c = 0x2028 \<or> c = 0x2029 then Never else Eps)"
| "deriv c (Seq a b) =
     (if nullable a then Alt (Seq (deriv c a) b) (deriv c b) else Seq (deriv c a) b)"
| "deriv c (Alt a b) = Alt (deriv c a) (deriv c b)"
| "deriv c (Plus a) = Seq (deriv c a) (Star a)"
| "deriv c (Star a) = Seq (deriv c a) (Star a)"
| "deriv c (Opt a) = deriv c a"

text \<open>
  Every pattern of the table starts with \<^verbatim>\<open>^\<close> and none has the \<^verbatim>\<open>m\<close> flag, so
  \<^verbatim>\<open>pattern.test(s)\<close> asks for a match that starts at the first code unit: the whole
  string when the pattern ends with \<^verbatim>\<open>$\<close> (\<open>Whole\<close>), some prefix of the string
  otherwise (\<open>Prefix\<close>).
\<close>

fun whole_match :: "rx \<Rightarrow> jsstring \<Rightarrow> bool" where
  "whole_match r [] = nullable r"
| "whole_match r (c # cs) = whole_match (deriv c r) cs"

fun prefix_match :: "rx \<Rightarrow> jsstring \<Rightarrow> bool" where
  "prefix_match r [] = nullable r"
| "prefix_match r (c # cs) = (nullable r \<or> prefix_match (deriv c r) cs)"

datatype pattern = Whole rx | Prefix rx

fun test :: "pattern \<Rightarrow> jsstring \<Rightarrow> bool" where
  "test (Whole r) s = whole_match r s"
| "test (Prefix r) s = prefix_match r s"

text \<open>A literal string is the sequence of its code units.\<close>

fun lit :: "jsstring \<Rightarrow> rx" where
  "lit [] = Eps"
| "lit (c # cs) = Seq (Cls [One c]) (lit cs)"

subsection \<open>Noise classifier (\<^verbatim>\<open>NOISE_PATTERNS\<close>, \<^verbatim>\<open>isNoiseTranscript\<close>)\<close>

text \<open>
  The class \<^verbatim>\<open>[U+3002 U+3001]?\<close> (ideographic full stop or comma, optional) closes
  most patterns.
\<close>

definition stop_opt :: rx where
  "stop_opt = Opt (Cls [One 0x3002, One 0x3001])"

text \<open>
  The thirteen patterns in source order. Code units: U+3093 N, U+3042 A, U+3048 E,
  U+3046 U, U+306F U+3044 (hai), U+3044 U+3063 (it), the two sign-off phrases
  (U+3054 U+8996 U+8074 ... and U+3054 U+6E05 U+8074 ...), U+3010 ... ending ...
  U+3011, \<^verbatim>\<open>by\s+[A-Z]\.\<close> with the \<^verbatim>\<open>i\<close> flag (each letter in both cases), U+307E
  U+305F U+306D (matane), U+3069 U+3046 U+3082 (doumo), and the blank string.
\<close>

definition NOISE_PATTERNS :: "pattern list" where
  "NOISE_PATTERNS =
    [Whole (Seq (Plus (Cls [One 0x3093])) stop_opt),
     Whole (Seq (Plus (Cls [One 0x3042])) stop_opt),
     Whole (Seq (Plus (Cls [One 0x3048])) stop_opt),
     Whole (Seq (Plus (Cls [One 0x3046])) stop_opt),
     Whole (Seq (lit [0x306F, 0x3044]) stop_opt),
     Whole (Seq (lit [0x3044, 0x3063]) stop_opt),
     Prefix (lit [0x3054, 0x8996, 0x8074, 0x3042, 0x308A, 0x304C, 0x3068, 0x3046,
                  0x3054, 0x3056, 0x3044, 0x307E, 0x3057, 0x305F]),
     Prefix (lit [0x3054, 0x6E05, 0x8074, 0x3042, 0x308A, 0x304C, 0x3068, 0x3046,
                  0x3054, 0x3056, 0x3044, 0x307E, 0x3057, 0x305F]),
     Prefix (Seq (Cls [One 0x3010]) (Seq (Star Dot)
              (Seq (lit [0x30A8, 0x30F3, 0x30C7, 0x30A3, 0x30F3, 0x30B0])
                (Seq (Star Dot) (Cls [One 0x3011]))))),
     Prefix (Seq (Cls [One 0x62, One 0x42]) (Seq (Cls [One 0x79, One 0x59])
              (Seq (Plus (Cls [Space]))
                (Seq (Cls [Range 0x41 0x5A, Range 0x61 0x7A]) (Cls [One 0x2E]))))),
     Whole (Seq (lit [0x307E, 0x305F, 0x306D]) stop_opt),
     Whole (Seq (lit [0x3069, 0x3046, 0x3082]) stop_opt),
     Whole (Star (Cls [Space]))]"

text \<open>
  \<^verbatim>\<open>trimmed.replace(/[U+3002 U+3001 U+FF01 U+FF1F !?.,\s]/g, "")\<close> removes every code
  unit of the class.
\<close>

definition isPunct :: "16 word \<Rightarrow> bool" where
  "isPunct c =
     (c = 0x3002 \<or> c = 0x3001 \<or> c = 0xFF01 \<or> c = 0xFF1F \<or> c = 0x21 \<or> c = 0x3F \<or>
      c = 0x2E \<or> c = 0x2C \<or> isWhiteSpace c)"

definition withoutPunct :: "jsstring \<Rightarrow> jsstring" where
  "withoutPunct trimmed = filter (\<lambda>c. \<not> isPunct c) trimmed"

definition isNoiseTranscript :: "jsstring \<Rightarrow> bool" where
  "isNoiseTranscript txt =
     (let trimmed = trim txt
      in if length (withoutPunct trimmed) < 3 then True
         else list_ex (\<lambda>pattern. test pattern trimmed) NOISE_PATTERNS)"


text \<open>
  The fixed phrases of the table, verbatim: the four interjections, hai, it, the two
  sign-off phrases, an ending tag, an attribution tag (\<^verbatim>\<open>by A.\<close>), matane and doumo;
  and hai followed by the ideographic full stop.
\<close>

definition filler_phrases :: "jsstring list" where
  "filler_phrases =
    [[0x3093], [0x3042], [0x3048], [0x3046],
     [0x306F, 0x3044], [0x3044, 0x3063],
     [0x3054, 0x8996, 0x8074, 0x3042, 0x308A, 0x304C, 0x3068, 0x3046,
      0x3054, 0x3056, 0x3044, 0x307E, 0x3057, 0x305F],
     [0x3054, 0x6E05, 0x8074, 0x3042, 0x308A, 0x304C, 0x3068, 0x3046,
      0x3054, 0x3056, 0x3044, 0x307E, 0x3057, 0x305F],
     [0x3010, 0x30A8, 0x30F3, 0x30C7, 0x30A3, 0x30F3, 0x30B0, 0x3011],
     [0x62, 0x79, 0x20, 0x41, 0x2E],
     [0x307E, 0x305F, 0x306D], [0x3069, 0x3046, 0x3082],
     [0x306F, 0x3044, 0x3002]]"

text \<open>
  Two plausible sentences: \<^verbatim>\<open>hello world\<close>, and a ten-character Japanese remark on
  the weather (U+4ECA U+65E5 U+306F U+3044 U+3044 U+5929 U+6C17 U+3067 U+3059 U+306D),
  which contains hai in the middle.
\<close>

definition hello_world :: jsstring where
  "hello_world = [0x68, 0x65, 0x6C, 0x6C, 0x6F, 0x20, 0x77, 0x6F, 0x72, 0x6C, 0x64]"

definition weather_remark :: jsstring where
  "weather_remark =
     [0x4ECA, 0x65E5, 0x306F, 0x3044, 0x3044, 0x5929, 0x6C17, 0x3067, 0x3059, 0x306D]"


subsection \<open>The state of a \<^verbatim>\<open>VoiceManager\<close>\<close>

text \<open>
  Voice connections belong to the library \<^verbatim>\<open>@discordjs/voice\<close>, which keeps at most one
  per guild: \<^verbatim>\<open>getVoiceConnection(guildId)\<close> looks it up, \<^verbatim>\<open>joinVoiceChannel\<close> registers a
  new one and \<^verbatim>\<open>connection.destroy()\<close> removes it. A connection carries the channel of
  its \<^verbatim>\<open>joinConfig\<close>, whether a player is subscribed to it, and the listeners that
  \<^verbatim>\<open>startListening\<close> attached to \<^verbatim>\<open>receiver.speaking\<close>: one closure per call, holding the
  two thresholds computed by that call.
\<close>

datatype VoiceConnectionStatus = Signalling | Connecting | Ready | Disconnected | Destroyed

record VoiceConnection =
  conn_status :: VoiceConnectionStatus
  conn_channelId :: "channelId option"
  conn_subscribed :: bool
  conn_speakingHandlers :: "(int \<times> int) list"

record AudioPlayer =
  ap_resource :: "string option"
  ap_volume :: "real option"

text \<open>
  \<^verbatim>\<open>VoiceListenerOptions\<close>. The callback is a closure; it is identified by a number, and
  calling it is recorded as an effect.
\<close>

record VoiceListenerOptions =
  onTranscription :: nat
  silenceThreshold :: "int option"
  minSpeechDuration :: "int option"
  openaiApiKey :: "string option"
  language :: "string option"

text \<open>
  One run of \<^verbatim>\<open>handleSpeakingStart\<close> past its guard creates a subscription, a decoder
  and the closure variables \<^verbatim>\<open>chunks\<close>, \<^verbatim>\<open>startTime\<close>, \<^verbatim>\<open>opts\<close> and \<^verbatim>\<open>guildListeners\<close>. The
  last one is a reference to a \<^verbatim>\<open>Set\<close> object, which \<^verbatim>\<open>stopListening\<close> may have removed
  from the map since; Set objects therefore live in a store, addressed by numbers.
  \<open>captures\<close> lists the decoders that have neither ended nor failed.
\<close>

record capture =
  cap_id :: nat
  cap_guild :: guildId
  cap_user :: userId
  cap_listeners :: nat
  cap_chunks :: "Buffer list"
  cap_startTime :: int
  cap_silenceThreshold :: int
  cap_minSpeechDuration :: int

text \<open>
  The temporary file of an utterance is
  \<^verbatim>\<open>join(tempDir, guildId + "-" + userId + "-" + Date.now() + ".wav")\<close>.
\<close>

datatype tempfile = TempFile string guildId userId int

text \<open>The calls that leave the process, in the order they are made.\<close>

datatype effect =
    WriteFile tempfile Buffer
  | Transcribe tempfile
  | HttpPost string "string option"
  | Callback nat userId string jsstring guildId channelId
  | Unlink tempfile


fun is_unlink :: "effect \<Rightarrow> bool" where
  "is_unlink (Unlink f) = True"
| "is_unlink e = False"

record state =
  players :: "guildId \<rightharpoonup> AudioPlayer"
  ready :: bool
  tempDir :: string
  listenerOptions :: "VoiceListenerOptions option"
  activeListeners :: "guildId \<rightharpoonup> nat"
  sets :: "nat \<Rightarrow> userId set"
  nextSet :: nat
  captures :: "capture list"
  nextCapture :: nat
  connections :: "guildId \<rightharpoonup> VoiceConnection"
  effects :: "effect list"

definition initial :: "string \<Rightarrow> state" where
  "initial dir =
     \<lparr>players = Map.empty, ready = False, tempDir = dir, listenerOptions = None,
      activeListeners = Map.empty, sets = (\<lambda>r. {}), nextSet = 0, captures = [],
      nextCapture = 0, connections = Map.empty, effects = []\<rparr>"

definition getVoiceConnection :: "state \<Rightarrow> guildId \<Rightarrow> VoiceConnection option" where
  "getVoiceConnection s guildId = connections s guildId"

subsection \<open>Transcription client (\<^verbatim>\<open>transcribeWithWhisper\<close>)\<close>

text \<open>
  The verbose response of the Whisper API. The no-speech probabilities are JavaScript
  numbers; they are taken as real numbers, so the sum and the quotient below are
  exact. The source reads a missing probability as 0 (\<^verbatim>\<open>seg.no_speech_prob ?? 0\<close>).
\<close>

record WhisperSegment =
  seg_text :: jsstring
  no_speech_prob :: "real option"

record WhisperVerboseResponse =
  resp_text :: jsstring
  segments :: "WhisperSegment list option"

text \<open>
  What the outside world answers during one run of \<^verbatim>\<open>processAudio\<close>: the clock, the
  display name of the member (\<open>None\<close> when the guild is not cached or the fetch
  throws), whether \<^verbatim>\<open>writeFile\<close>, \<^verbatim>\<open>readFile\<close> and \<^verbatim>\<open>unlink\<close> succeed, the environment
  variable \<^verbatim>\<open>OPENAI_API_KEY\<close>, the answer to the HTTP request (a thrown \<^verbatim>\<open>fetch\<close>, or a
  status, a body and the parsed JSON), and whether the callback returns or throws.
\<close>

datatype http_outcome = FetchThrows | Response nat string WhisperVerboseResponse

record audio_env =
  env_now :: int
  env_member :: "string option"
  env_write_ok :: bool
  env_OPENAI_API_KEY :: "string option"
  env_read_ok :: bool
  env_http :: http_outcome
  env_callback_ok :: bool
  env_unlink_ok :: bool

definition avgNoSpeechProb :: "WhisperSegment list \<Rightarrow> real" where
  "avgNoSpeechProb segs =
     foldl (\<lambda>sum seg. sum + (case no_speech_prob seg of Some p \<Rightarrow> p | None \<Rightarrow> 0)) 0 segs
       / real (length segs)"

text \<open>
  The key is \<^verbatim>\<open>this.listenerOptions?.openaiApiKey ?? process.env.OPENAI_API_KEY\<close>.
  \<^verbatim>\<open>!apiKey\<close> and \<^verbatim>\<open>if (language)\<close> are JavaScript truthiness tests: the empty string
  counts as absent. \<^verbatim>\<open>response.ok\<close> holds for the statuses 200 to 299.
\<close>

definition apiKeyOf :: "VoiceListenerOptions option \<Rightarrow> audio_env \<Rightarrow> string option" where
  "apiKeyOf lo env =
     (case (case lo of Some opts \<Rightarrow> openaiApiKey opts | None \<Rightarrow> None) of
        Some k \<Rightarrow> Some k
      | None \<Rightarrow> env_OPENAI_API_KEY env)"

definition transcribeWithWhisper ::
  "VoiceListenerOptions option \<Rightarrow> audio_env \<Rightarrow> tempfile \<Rightarrow> (error + jsstring option) \<times> effect list"
where
  "transcribeWithWhisper lo env audioPath =
     (let apiKey = apiKeyOf lo env
      in case apiKey of
           None \<Rightarrow> (Inl AuthError, [])
         | Some k \<Rightarrow>
             if k = [] then (Inl AuthError, [])
             else if \<not> env_read_ok env then (Inl IOError, [])
             else
               let lang = (case lo of
                             Some opts \<Rightarrow>
                               (case language opts of
                                  Some l \<Rightarrow> if l = [] then None else Some l
                                | None \<Rightarrow> None)
                           | None \<Rightarrow> None);
                   post = HttpPost k lang
               in case env_http env of
                    FetchThrows \<Rightarrow> (Inl NetworkError, [post])
                  | Response st body result \<Rightarrow>
                      if \<not> (200 \<le> st \<and> st \<le> 299) then (Inl (RemoteError st body), [post])
                      else
                        (case segments result of
                           Some segs \<Rightarrow>
                             if length segs > 0 \<and> avgNoSpeechProb segs > 0.5
                             then (Inr None, [post])
                             else (Inr (Some (resp_text result)), [post])
                         | None \<Rightarrow> (Inr (Some (resp_text result)), [post])))"

subsection \<open>Audio processing (\<^verbatim>\<open>processAudio\<close>)\<close>

text \<open>
  The body of the \<^verbatim>\<open>try\<close> block: transcription, trimming, the noise test and the
  callback. It returns how the block ends (normally or with a throw) and the
  effects it made.
\<close>

definition processAudio_try ::
  "state \<Rightarrow> VoiceListenerOptions \<Rightarrow> guildId \<Rightarrow> userId \<Rightarrow> string \<Rightarrow> channelId \<Rightarrow> tempfile \<Rightarrow>
   audio_env \<Rightarrow> (error + unit) \<times> effect list"
where
  "processAudio_try s opts guildId userId username channelId tempFile env =
     (case transcribeWithWhisper (listenerOptions s) env tempFile of
        (Inl e, effs) \<Rightarrow> (Inl e, Transcribe tempFile # effs)
      | (Inr transcript, effs) \<Rightarrow>
          (case map_option trim transcript of
             None \<Rightarrow> (Inr (), Transcribe tempFile # effs)
           | Some trimmedTranscript \<Rightarrow>
               if trimmedTranscript \<noteq> [] \<and> \<not> isNoiseTranscript trimmedTranscript
               then (if env_callback_ok env then Inr () else Inl CallbackError,
                     Transcribe tempFile # effs @
                     [Callback (onTranscription opts) userId username trimmedTranscript
                        guildId channelId])
               else (Inr (), Transcribe tempFile # effs)))"

text \<open>
  \<^verbatim>\<open>processAudio\<close>. The \<^verbatim>\<open>finally\<close> block runs \<^verbatim>\<open>unlink\<close> after the \<^verbatim>\<open>try\<close> block however it
  ends, and its own \<^verbatim>\<open>catch\<close> drops a failure of \<^verbatim>\<open>unlink\<close>. \<^verbatim>\<open>pcmToWav\<close> and \<^verbatim>\<open>writeFile\<close>
  stand before the \<^verbatim>\<open>try\<close>. The manager state is read at one instant.
\<close>

definition processAudio ::
  "state \<Rightarrow> guildId \<Rightarrow> userId \<Rightarrow> Buffer list \<Rightarrow> audio_env \<Rightarrow> (error + unit) \<times> effect list"
where
  "processAudio s guildId userId chunks env =
     (case listenerOptions s of
        None \<Rightarrow> (Inr (), [])
      | Some opts \<Rightarrow>
          let channelId = (case getVoiceConnection s guildId of
                             Some connection \<Rightarrow>
                               (case conn_channelId connection of Some ch \<Rightarrow> ch | None \<Rightarrow> [])
                           | None \<Rightarrow> []);
              username = (case env_member env of Some n \<Rightarrow> n | None \<Rightarrow> userId);
              pcmBuffer = concat chunks
          in case pcmToWav pcmBuffer 48000 2 16 of
               Inl e \<Rightarrow> (Inl e, [])
             | Inr wavBuffer \<Rightarrow>
                 let tempFile = TempFile (tempDir s) guildId userId (env_now env)
                 in if \<not> env_write_ok env then (Inl IOError, [WriteFile tempFile wavBuffer])
                    else
                      (case processAudio_try s opts guildId userId username channelId
                              tempFile env of
                         (r, effs) \<Rightarrow>
                           let unlinked = (if env_unlink_ok env then Inr () else Inl IOError)
                           in (case unlinked of Inl e \<Rightarrow> r | Inr u \<Rightarrow> r,
                               WriteFile tempFile wavBuffer # effs @ [Unlink tempFile])))"


subsection \<open>Connection manager (\<^verbatim>\<open>join\<close>, \<^verbatim>\<open>leave\<close>, \<^verbatim>\<open>isConnected\<close>, \<^verbatim>\<open>getChannelId\<close>)\<close>

text \<open>
  What the Discord client answers during one \<^verbatim>\<open>join\<close>: whether the login completes,
  how the guild and the channel are found (in the cache; by a fetch that fills the
  cache; by a fetch that throws; by a fetch that returns and leaves the cache
  without the entry), whether the channel is voice based, and whether the new
  connection becomes ready within 20 seconds.
\<close>

datatype lookup = InCache | FetchFills | FetchFails | FetchMisses

record join_env =
  je_login_ok :: bool
  je_guild :: lookup
  je_channel :: lookup
  je_voice_based :: bool
  je_enters_ready :: bool

text \<open>
  Operations that can throw after they have changed the state return the outcome
  together with the state they leave.
\<close>

definition join :: "guildId \<Rightarrow> channelId \<Rightarrow> join_env \<Rightarrow> state \<Rightarrow> (error + unit) \<times> state" where
  "join guildId channelId env s =
     (if \<not> ready s \<and> \<not> je_login_ok env then (Inl LoginError, s)
      else
        let s1 = s\<lparr>ready := True\<rparr>
        in if je_guild env = FetchFails
           then (Inl (ConnectionError ''Guild not accessible''), s1)
           else if je_guild env = FetchMisses
           then (Inl (ConnectionError ''Guild not found''), s1)
           else if je_channel env = FetchFails
           then (Inl (ConnectionError ''Channel not accessible''), s1)
           else if je_channel env = FetchMisses \<or> \<not> je_voice_based env
           then (Inl (ConnectionError ''Channel is not a voice channel''), s1)
           else
             (case getVoiceConnection s1 guildId of
                Some existing \<Rightarrow>
                  if conn_status existing \<noteq> Destroyed
                  then (Inr (), s1\<lparr>connections := (connections s1)
                          (guildId \<mapsto> existing\<lparr>conn_channelId := Some channelId\<rparr>)\<rparr>)
                  else if je_enters_ready env
                  then (Inr (), s1\<lparr>connections := (connections s1)
                          (guildId \<mapsto> \<lparr>conn_status = Ready, conn_channelId = Some channelId,
                             conn_subscribed = False, conn_speakingHandlers = []\<rparr>)\<rparr>)
                  else (Inl (ConnectionError ''Failed to join voice channel''),
                        s1\<lparr>connections := (connections s1)(guildId := None)\<rparr>)
              | None \<Rightarrow>
                  if je_enters_ready env
                  then (Inr (), s1\<lparr>connections := (connections s1)
                          (guildId \<mapsto> \<lparr>conn_status = Ready, conn_channelId = Some channelId,
                             conn_subscribed = False, conn_speakingHandlers = []\<rparr>)\<rparr>)
                  else (Inl (ConnectionError ''Failed to join voice channel''),
                        s1\<lparr>connections := (connections s1)(guildId := None)\<rparr>)))"

definition leave :: "guildId \<Rightarrow> state \<Rightarrow> state" where
  "leave guildId s =
     (let s1 = (case players s guildId of
                  Some player \<Rightarrow> s\<lparr>players := (players s)(guildId := None)\<rparr>
                | None \<Rightarrow> s)
      in case getVoiceConnection s1 guildId of
           Some connection \<Rightarrow> s1\<lparr>connections := (connections s1)(guildId := None)\<rparr>
         | None \<Rightarrow> s1)"

definition isConnected :: "state \<Rightarrow> guildId \<Rightarrow> bool" where
  "isConnected s guildId =
     (case getVoiceConnection s guildId of
        Some connection \<Rightarrow> conn_status connection \<noteq> Destroyed
      | None \<Rightarrow> False)"

definition getChannelId :: "state \<Rightarrow> guildId \<Rightarrow> channelId option" where
  "getChannelId s guildId =
     (case getVoiceConnection s guildId of
        Some connection \<Rightarrow>
          if conn_status connection = Destroyed then None else conn_channelId connection
      | None \<Rightarrow> None)"

subsection \<open>Playback controller (\<^verbatim>\<open>play\<close>, \<^verbatim>\<open>stop\<close>)\<close>

text \<open>
  \<^verbatim>\<open>play\<close> up to \<^verbatim>\<open>player.play(resource)\<close>; the promise it returns then waits for the
  player to become idle or to fail. \<^verbatim>\<open>resolve\<close> (path resolution against the working
  directory) and \<^verbatim>\<open>existsSync\<close> (the file system) are parameters.
\<close>

definition play ::
  "(string \<Rightarrow> string) \<Rightarrow> (string \<Rightarrow> bool) \<Rightarrow> guildId \<Rightarrow> string \<Rightarrow> real option \<Rightarrow> state \<Rightarrow>
   (error + unit) \<times> state"
where
  "play resolve existsSync guildId filePath volume s =
     (case getVoiceConnection s guildId of
        None \<Rightarrow> (Inl (NotConnected guildId), s)
      | Some connection \<Rightarrow>
          let resolvedPath = resolve filePath
          in if \<not> existsSync resolvedPath then (Inl (FileNotFound resolvedPath), s)
             else
               let s1 = (case players s guildId of
                           Some player \<Rightarrow> s
                         | None \<Rightarrow>
                             s\<lparr>players := (players s)
                                  (guildId \<mapsto> \<lparr>ap_resource = None, ap_volume = None\<rparr>),
                               connections := (connections s)
                                  (guildId \<mapsto> connection\<lparr>conn_subscribed := True\<rparr>)\<rparr>)
               in (Inr (), s1\<lparr>players := (players s1)
                     (guildId \<mapsto> \<lparr>ap_resource = Some resolvedPath, ap_volume = volume\<rparr>)\<rparr>))"

definition stop :: "guildId \<Rightarrow> state \<Rightarrow> state" where
  "stop guildId s =
     (case players s guildId of
        Some player \<Rightarrow> s\<lparr>players := (players s)(guildId \<mapsto> player\<lparr>ap_resource := None\<rparr>)\<rparr>
      | None \<Rightarrow> s)"

subsection \<open>Utterance tracker (\<^verbatim>\<open>startListening\<close>, \<^verbatim>\<open>handleSpeakingStart\<close>, \<^verbatim>\<open>stopListening\<close>)\<close>

text \<open>
  \<^verbatim>\<open>startListening\<close> stores the options in the single field \<^verbatim>\<open>listenerOptions\<close>, computes
  the two thresholds with their defaults, creates the temporary directory (\<^verbatim>\<open>mkdir\<close>
  may throw) and attaches one listener to the connection.
\<close>

definition startListening ::
  "guildId \<Rightarrow> VoiceListenerOptions \<Rightarrow> bool \<Rightarrow> state \<Rightarrow> (error + unit) \<times> state"
where
  "startListening guildId options mkdir_ok s =
     (case getVoiceConnection s guildId of
        None \<Rightarrow> (Inl (NotConnected guildId), s)
      | Some connection \<Rightarrow>
          let s1 = s\<lparr>listenerOptions := Some options\<rparr>;
              silence = (case silenceThreshold options of Some v \<Rightarrow> v | None \<Rightarrow> 1500);
              minSpeech = (case minSpeechDuration options of Some v \<Rightarrow> v | None \<Rightarrow> 500)
          in if \<not> mkdir_ok then (Inl IOError, s1)
             else (Inr (), s1\<lparr>connections := (connections s1)
                     (guildId \<mapsto> connection\<lparr>conn_speakingHandlers :=
                        conn_speakingHandlers connection @ [(silence, minSpeech)]\<rparr>)\<rparr>))"

text \<open>
  \<^verbatim>\<open>handleSpeakingStart\<close>: the guild's Set is created when missing; a user already in
  the Set ends the call; otherwise the user is added and a new capture starts with
  no chunks at the current time.
\<close>

definition handleSpeakingStart :: "guildId \<Rightarrow> userId \<Rightarrow> int \<times> int \<Rightarrow> int \<Rightarrow> state \<Rightarrow> state" where
  "handleSpeakingStart guildId userId opts now s =
     (let s1 = (case activeListeners s guildId of
                  Some r \<Rightarrow> s
                | None \<Rightarrow> s\<lparr>sets := (sets s)(nextSet s := {}),
                            activeListeners := (activeListeners s)(guildId \<mapsto> nextSet s),
                            nextSet := Suc (nextSet s)\<rparr>);
          guildListeners = (case activeListeners s1 guildId of Some r \<Rightarrow> r | None \<Rightarrow> nextSet s)
      in if userId \<in> sets s1 guildListeners then s1
         else s1\<lparr>sets := (sets s1)(guildListeners := insert userId (sets s1 guildListeners)),
                 captures := captures s1 @
                   [\<lparr>cap_id = nextCapture s1, cap_guild = guildId, cap_user = userId,
                     cap_listeners = guildListeners, cap_chunks = [],
                     cap_startTime = now, cap_silenceThreshold = fst opts,
                     cap_minSpeechDuration = snd opts\<rparr>],
                 nextCapture := Suc (nextCapture s1)\<rparr>)"

text \<open>
  A speaking-start signal of the receiver runs every listener attached to the
  guild's connection, in the order of attachment.
\<close>

definition speakingStart :: "guildId \<Rightarrow> userId \<Rightarrow> int \<Rightarrow> state \<Rightarrow> state" where
  "speakingStart guildId userId now s =
     (case getVoiceConnection s guildId of
        None \<Rightarrow> s
      | Some connection \<Rightarrow>
          foldl (\<lambda>st opts. handleSpeakingStart guildId userId opts now st) s
            (conn_speakingHandlers connection))"

definition find_capture :: "nat \<Rightarrow> state \<Rightarrow> capture option" where
  "find_capture cid s = find (\<lambda>c. cap_id c = cid) (captures s)"

text \<open>The decoder's \<^verbatim>\<open>data\<close> event: \<^verbatim>\<open>chunks.push(chunk)\<close>.\<close>

definition decoderData :: "nat \<Rightarrow> Buffer \<Rightarrow> state \<Rightarrow> state" where
  "decoderData cid chunk s =
     s\<lparr>captures := map (\<lambda>c. if cap_id c = cid then c\<lparr>cap_chunks := cap_chunks c @ [chunk]\<rparr>
                            else c) (captures s)\<rparr>"

text \<open>
  The decoder's \<^verbatim>\<open>end\<close> event: the user leaves the Set the closure holds, and the
  utterance is dropped when it is too short or empty, processed otherwise. A
  failure of \<^verbatim>\<open>processAudio\<close> is caught and logged.
\<close>

definition forget :: "capture \<Rightarrow> state \<Rightarrow> state" where
  "forget c s =
     s\<lparr>sets := (sets s)(cap_listeners c := sets s (cap_listeners c) - {cap_user c}),
       captures := filter (\<lambda>d. cap_id d \<noteq> cap_id c) (captures s)\<rparr>"

definition decoderEnd :: "nat \<Rightarrow> int \<Rightarrow> audio_env \<Rightarrow> state \<Rightarrow> state" where
  "decoderEnd cid now env s =
     (case find_capture cid s of
        None \<Rightarrow> s
      | Some c \<Rightarrow>
          let s1 = forget c s;
              duration = now - cap_startTime c
          in if duration < cap_minSpeechDuration c \<or> length (cap_chunks c) = 0 then s1
             else s1\<lparr>effects := effects s1 @
                      snd (processAudio s1 (cap_guild c) (cap_user c) (cap_chunks c) env)\<rparr>)"

text \<open>
  The \<^verbatim>\<open>error\<close> events of the decoder and of the Opus stream: the user leaves the
  Set; the failed stream is destroyed and delivers nothing more.
\<close>

definition streamError :: "nat \<Rightarrow> state \<Rightarrow> state" where
  "streamError cid s = (case find_capture cid s of None \<Rightarrow> s | Some c \<Rightarrow> forget c s)"

definition stopListening :: "guildId \<Rightarrow> state \<Rightarrow> state" where
  "stopListening guildId s =
     (case activeListeners s guildId of
        Some listeners \<Rightarrow> s\<lparr>sets := (sets s)(listeners := {}),
                            activeListeners := (activeListeners s)(guildId := None)\<rparr>
      | None \<Rightarrow> s)"

definition isListening :: "state \<Rightarrow> guildId \<Rightarrow> bool" where
  "isListening s guildId = (listenerOptions s \<noteq> None \<and> activeListeners s guildId \<noteq> None)"

subsection \<open>Runs of the manager\<close>

text \<open>
  Everything that can happen to a manager: the calls of its public methods and the
  events of the streams it has created.
\<close>

datatype event =
    Join guildId channelId join_env
  | Leave guildId
  | Play guildId string "real option" bool
  | Stop guildId
  | StartListening guildId VoiceListenerOptions bool
  | StopListening guildId
  | SpeakingStart guildId userId int
  | DecoderData nat Buffer
  | DecoderEnd nat int audio_env
  | StreamError nat

fun step :: "state \<Rightarrow> event \<Rightarrow> state" where
  "step s (Join g ch env) = snd (join g ch env s)"
| "step s (Leave g) = leave g s"
| "step s (Play g path vol present) = snd (play (\<lambda>p. p) (\<lambda>p. present) g path vol s)"
| "step s (Stop g) = stop g s"
| "step s (StartListening g options mkdir_ok) = snd (startListening g options mkdir_ok s)"
| "step s (StopListening g) = stopListening g s"
| "step s (SpeakingStart g u now) = speakingStart g u now s"
| "step s (DecoderData cid chunk) = decoderData cid chunk s"
| "step s (DecoderEnd cid now env) = decoderEnd cid now env s"
| "step s (StreamError cid) = streamError cid s"

definition run :: "state \<Rightarrow> event list \<Rightarrow> state" where
  "run s evs = foldl step s evs"


subsection \<open>The mean of the no-speech probabilities, and sample data\<close>


text \<open>
  Two sets of listener options, a manager that has listened with the first, an
  environment in which every external call succeeds, and two responses whose text
  is \<^verbatim>\<open>hello world\<close> between blanks: one with mean no-speech probability 0.2, one
  with 0.6.
\<close>

definition opts_A :: VoiceListenerOptions where
  "opts_A = \<lparr>onTranscription = 1, silenceThreshold = None, minSpeechDuration = None,
              openaiApiKey = Some ''sk-A'', language = Some ''ja''\<rparr>"

definition opts_B :: VoiceListenerOptions where
  "opts_B = \<lparr>onTranscription = 2, silenceThreshold = Some 800, minSpeechDuration = Some 300,
              openaiApiKey = Some ''sk-B'', language = Some ''en''\<rparr>"

definition listening_state :: state where
  "listening_state = (initial ''/tmp/clawdbot-voice'')\<lparr>listenerOptions := Some opts_A\<rparr>"

definition calm_env :: "http_outcome \<Rightarrow> audio_env" where
  "calm_env h =
     \<lparr>env_now = 5000, env_member = Some ''Alice'', env_write_ok = True,
      env_OPENAI_API_KEY = None, env_read_ok = True, env_http = h,
      env_callback_ok = True, env_unlink_ok = True\<rparr>"

definition resp_speech :: WhisperVerboseResponse where
  "resp_speech =
     \<lparr>resp_text = 0x20 # hello_world @ [0x20],
      segments = Some [\<lparr>seg_text = hello_world, no_speech_prob = Some 0.1\<rparr>,
                       \<lparr>seg_text = [], no_speech_prob = Some 0.3\<rparr>]\<rparr>"

definition resp_silence :: WhisperVerboseResponse where
  "resp_silence =
     \<lparr>resp_text = 0x20 # hello_world @ [0x20],
      segments = Some [\<lparr>seg_text = hello_world, no_speech_prob = Some 0.7\<rparr>,
                       \<lparr>seg_text = [], no_speech_prob = Some 0.5\<rparr>]\<rparr>"


subsection \<open>The module-level singleton (\<^verbatim>\<open>getVoiceManager\<close>, \<^verbatim>\<open>initVoiceManager\<close>)\<close>










subsection \<open>Sample runs\<close>

definition ok_join :: join_env where
  "ok_join = \<lparr>je_login_ok = True, je_guild = InCache, je_channel = InCache,
              je_voice_based = True, je_enters_ready = True\<rparr>"

text \<open>
  A manager that joined a channel of guild \<^verbatim>\<open>g1\<close> and started listening there with
  the first options; then user \<^verbatim>\<open>u1\<close> starts speaking at time 1000 and one chunk
  of four bytes is decoded.
\<close>

definition joined_state :: state where
  "joined_state = run (initial ''/tmp/clawdbot-voice'') [Join ''g1'' ''c1'' ok_join]"

definition capturing_state :: state where
  "capturing_state =
     run joined_state
       [StartListening ''g1'' opts_A True, SpeakingStart ''g1'' ''u1'' 1000,
        DecoderData 0 [0, 0, 0, 0]]"





subsection \<open>Registered captures\<close>









section \<open>Verified properties\<close>

subsection \<open>WAV encoder\<close>




lemma rat_div8_less: "((of_int x :: rat) / 8 > of_int m) = (x > 8 * m)"
proof -
  have "((of_int x :: rat) / 8 > of_int m) = (of_int x > (of_int m :: rat) * 8)"
    by (simp add: pos_less_divide_eq)
  also have "\<dots> = ((of_int x :: rat) > of_int (m * 8))" by simp
  also have "\<dots> = (x > m * 8)" by (simp only: of_int_less_iff)
  finally show ?thesis by (simp add: mult.commute)
qed

lemma writeUInt32LE_in_range:
  "\<not> v > 4294967295 \<Longrightarrow> \<not> v < 0 \<Longrightarrow> off + 4 \<le> length buf \<Longrightarrow>
   writeUInt32LE v off buf = Inr (buf[off := le_byte v 0, off + 1 := le_byte v 1,
                    off + 2 := le_byte v 2, off + 3 := le_byte v 3])"
  by (simp add: writeUInt32LE_def)

lemma writeUInt16LE_in_range:
  "\<not> v > 65535 \<Longrightarrow> \<not> v < 0 \<Longrightarrow> off + 2 \<le> length buf \<Longrightarrow>
   writeUInt16LE v off buf = Inr (buf[off := le_byte v 0, off + 1 := le_byte v 1])"
  by (simp add: writeUInt16LE_def)

lemma bindE_Inr: "bindE (Inr x) f = f x"
  by (simp add: bindE_def)

lemma length_write_at: "length (write_at bs off buf) = length buf"
  by (induction bs off buf rule: write_at.induct) simp_all

lemma length_buf_write: "length (buf_write s off buf) = length buf"
  by (simp add: buf_write_def length_write_at)

lemma header_writes:
  "(buf_write ''data'' 36
     ((buf_write ''fmt '' 12 (buf_write ''WAVE'' 8
        ((buf_write ''RIFF'' 0 (replicate 44 0))
           [4 := f0, 4 + 1 := f1, 4 + 2 := f2, 4 + 3 := f3])))
        [16 := le_byte 16 0, 16 + 1 := le_byte 16 1, 16 + 2 := le_byte 16 2,
         16 + 3 := le_byte 16 3,
         20 := le_byte 1 0, 20 + 1 := le_byte 1 1,
         22 := c0, 22 + 1 := c1,
         24 := s0, 24 + 1 := s1, 24 + 2 := s2, 24 + 3 := s3,
         28 := r0, 28 + 1 := r1, 28 + 2 := r2, 28 + 3 := r3,
         32 := a0, 32 + 1 := a1,
         34 := b0, 34 + 1 := b1]))
      [40 := d0, 40 + 1 := d1, 40 + 2 := d2, 40 + 3 := d3]
   = [82, 73, 70, 70, f0, f1, f2, f3, 87, 65, 86, 69, 102, 109, 116, 32, 16, 0, 0, 0,
      1, 0, c0, c1, s0, s1, s2, s3, r0, r1, r2, r3, a0, a1, b0, b1, 100, 97, 116, 97,
      d0, d1, d2, d3 :: byte]"
  by (simp add: buf_write_def le_byte_def eval_nat_numeral)

lemma pcmToWav_fit:
  assumes "wav_fields_fit pcm sr ch b"
  shows "pcmToWav pcm sr ch b = Inr (canonical_header (length pcm) sr ch b @ pcm)"
proof -
  have hi: "\<not> (of_int (sr * ch * b) :: rat) / 8 > 4294967295"
           "\<not> (of_int (ch * b) :: rat) / 8 > 65535"
    using assms rat_div8_less[of 4294967295 "sr * ch * b"] rat_div8_less[of 65535 "ch * b"]
    by (simp_all add: wav_fields_fit_def)
  have nn: "0 \<le> sr * ch * b" "0 \<le> ch * b"
    using assms by (simp_all add: wav_fields_fit_def)
  have lo: "\<not> (of_int (sr * ch * b) :: rat) / 8 < 0" "\<not> (of_int (ch * b) :: rat) / 8 < 0"
    using nn by (simp_all add: not_less del: of_int_mult)
  have fld: "\<not> (of_int (int 44 + int (length pcm) - 8) :: rat) > 4294967295"
          "\<not> (of_int (int 44 + int (length pcm) - 8) :: rat) < 0"
          "\<not> (of_int (int (length pcm)) :: rat) > 4294967295"
          "\<not> (of_int (int (length pcm)) :: rat) < 0"
          "\<not> (of_int sr :: rat) > 4294967295" "\<not> (of_int sr :: rat) < 0"
          "\<not> (of_int ch :: rat) > 65535" "\<not> (of_int ch :: rat) < 0"
          "\<not> (of_int b :: rat) > 65535" "\<not> (of_int b :: rat) < 0"
          "\<not> (16 :: rat) > 4294967295" "\<not> (16 :: rat) < 0"
          "\<not> (1 :: rat) > 65535" "\<not> (1 :: rat) < 0"
    using assms by (simp_all add: wav_fields_fit_def)
  have offs: "(4::nat) + 4 \<le> 44" "(16::nat) + 4 \<le> 44" "(20::nat) + 2 \<le> 44"
     "(22::nat) + 2 \<le> 44" "(24::nat) + 4 \<le> 44" "(28::nat) + 4 \<le> 44"
     "(32::nat) + 2 \<le> 44" "(34::nat) + 2 \<le> 44" "(40::nat) + 4 \<le> 44"
    by simp_all
  have fs: "of_int (int 44 + int (length pcm) - 8) = (of_int (int (length pcm) + 36) :: rat)"
    by simp
  show ?thesis
    unfolding pcmToWav_def Let_def canonical_header_def
    apply (simp only: writeUInt32LE_in_range writeUInt16LE_in_range bindE_Inr
        length_buf_write length_list_update alloc_def length_replicate hi lo fld offs simp_thms)
    apply (simp only: fs header_writes)
    done
qed















subsection \<open>Noise classifier\<close>

lemmas noise_eval = isNoiseTranscript_def trim_def isWhiteSpace_def withoutPunct_def
  isPunct_def NOISE_PATTERNS_def stop_opt_def

lemma filler_phrases_noise: "list_all isNoiseTranscript filler_phrases"
  unfolding filler_phrases_def list.pred_inject
  by (intro conjI TrueI) (simp_all add: noise_eval)

lemma plausible_sentences_pass:
  "\<not> isNoiseTranscript hello_world" "\<not> isNoiseTranscript weather_remark"
  by (simp_all add: hello_world_def weather_remark_def noise_eval)

text \<open>
  C4. \<open>isNoiseTranscript\<close> is a function of its argument alone. It returns true for
  every input whose trimmed text has fewer than 3 code units left once punctuation
  and white space are removed; it returns true whenever the trimmed text matches a
  pattern of the table, in particular for each fixed filler phrase verbatim (among
  them hai followed by the ideographic full stop); and it returns false for every
  input of post-strip length at least 3 that matches no pattern, for instance the
  two plausible sentences.
\<close>

theorem isNoiseTranscript_classifies:
  "(\<forall>txt. length (withoutPunct (trim txt)) < 3 \<longrightarrow> isNoiseTranscript txt) \<and>
   (\<forall>txt. list_ex (\<lambda>p. test p (trim txt)) NOISE_PATTERNS \<longrightarrow> isNoiseTranscript txt) \<and>
   list_all isNoiseTranscript filler_phrases \<and>
   (\<forall>txt. 3 \<le> length (withoutPunct (trim txt)) \<and>
          \<not> list_ex (\<lambda>p. test p (trim txt)) NOISE_PATTERNS \<longrightarrow> \<not> isNoiseTranscript txt) \<and>
   \<not> isNoiseTranscript hello_world \<and> \<not> isNoiseTranscript weather_remark"
proof (intro conjI allI impI)
  fix t assume "length (withoutPunct (trim t)) < 3"
  then show "isNoiseTranscript t" by (simp add: isNoiseTranscript_def)
next
  fix t assume "list_ex (\<lambda>p. test p (trim t)) NOISE_PATTERNS"
  then show "isNoiseTranscript t" by (simp add: isNoiseTranscript_def Let_def)
next
  show "list_all isNoiseTranscript filler_phrases" by (rule filler_phrases_noise)
next
  fix t
  assume "3 \<le> length (withoutPunct (trim t)) \<and>
          \<not> list_ex (\<lambda>p. test p (trim t)) NOISE_PATTERNS"
  then show "\<not> isNoiseTranscript t" by (simp add: isNoiseTranscript_def Let_def)
next
  show "\<not> isNoiseTranscript hello_world" by (rule plausible_sentences_pass)
next
  show "\<not> isNoiseTranscript weather_remark" by (rule plausible_sentences_pass)
qed

theorem isNoiseTranscript_classifies_witness:
  "length (withoutPunct (trim [0x20, 0x6F, 0x6B, 0x2E, 0x20])) < 3 \<and>
   isNoiseTranscript [0x20, 0x6F, 0x6B, 0x2E, 0x20] \<and>
   list_ex (\<lambda>p. test p (trim [0x3093, 0x3093, 0x3093, 0x3093, 0x3001])) NOISE_PATTERNS \<and>
   isNoiseTranscript [0x3093, 0x3093, 0x3093, 0x3093, 0x3001] \<and>
   3 \<le> length (withoutPunct (trim [0x6F, 0x6B, 0x61, 0x79])) \<and>
   \<not> list_ex (\<lambda>p. test p (trim [0x6F, 0x6B, 0x61, 0x79])) NOISE_PATTERNS \<and>
   \<not> isNoiseTranscript [0x6F, 0x6B, 0x61, 0x79]"
proof -
  have a: "length (withoutPunct (trim [0x20, 0x6F, 0x6B, 0x2E, 0x20])) < 3"
    by (simp add: noise_eval)
  have b: "list_ex (\<lambda>p. test p (trim [0x3093, 0x3093, 0x3093, 0x3093, 0x3001])) NOISE_PATTERNS"
    by (simp add: noise_eval)
  have c: "3 \<le> length (withoutPunct (trim [0x6F, 0x6B, 0x61, 0x79])) \<and>
     \<not> list_ex (\<lambda>p. test p (trim [0x6F, 0x6B, 0x61, 0x79])) NOISE_PATTERNS"
    by (simp add: noise_eval)
  from isNoiseTranscript_classifies a b c show ?thesis by blast
qed


subsection \<open>Transcription and audio processing\<close>





lemma wav_fit_48k: "int (length pcm) + 36 \<le> 4294967295 \<Longrightarrow> wav_fields_fit pcm 48000 2 16"
  by (simp add: wav_fields_fit_def)

lemma processAudio_reaches:
  assumes "listenerOptions s = Some opts" "int (length (concat chunks)) + 36 \<le> 4294967295"
    "env_write_ok env"
  shows "processAudio s g u chunks env =
    (fst (processAudio_try s opts g u (case env_member env of Some n \<Rightarrow> n | None \<Rightarrow> u)
            (case getVoiceConnection s g of
                 Some connection \<Rightarrow> (case conn_channelId connection of Some ch \<Rightarrow> ch | None \<Rightarrow> [])
               | None \<Rightarrow> []) (TempFile (tempDir s) g u (env_now env)) env),
     WriteFile (TempFile (tempDir s) g u (env_now env))
        (canonical_header (length (concat chunks)) 48000 2 16 @ concat chunks) #
     snd (processAudio_try s opts g u (case env_member env of Some n \<Rightarrow> n | None \<Rightarrow> u)
            (case getVoiceConnection s g of
                 Some connection \<Rightarrow> (case conn_channelId connection of Some ch \<Rightarrow> ch | None \<Rightarrow> [])
               | None \<Rightarrow> []) (TempFile (tempDir s) g u (env_now env)) env) @
     [Unlink (TempFile (tempDir s) g u (env_now env))])"
  using assms
  by (simp add: processAudio_def Let_def pcmToWav_fit[OF wav_fit_48k] split: prod.splits)


lemma processAudio_try_filter_unlink:
  "\<not> list_ex is_unlink (snd (processAudio_try s opts g u n ch f env))"
  by (auto simp: processAudio_try_def transcribeWithWhisper_def Let_def list_ex_iff
      split: prod.splits sum.splits option.splits if_splits http_outcome.splits)

lemma transcribe_unlink_indep:
  "transcribeWithWhisper lo (env\<lparr>env_unlink_ok := b\<rparr>) f = transcribeWithWhisper lo env f"
  by (simp add: transcribeWithWhisper_def apiKeyOf_def Let_def
      split: option.splits http_outcome.splits)

lemma processAudio_try_unlink_indep:
  "processAudio_try s opts g u n ch f (env\<lparr>env_unlink_ok := b\<rparr>) =
   processAudio_try s opts g u n ch f env"
  by (simp add: processAudio_try_def transcribe_unlink_indep
      split: prod.splits sum.splits option.splits)

lemma processAudio_unlink_indep:
  "processAudio s g u chunks (env\<lparr>env_unlink_ok := b\<rparr>) = processAudio s g u chunks env"
  by (simp add: processAudio_def processAudio_try_unlink_indep Let_def
      split: prod.splits sum.splits option.splits)

text \<open>
  C9. For every utterance whose audio processing gets as far as transcription (the
  options are set, the PCM data fits a WAV file and the temporary file was
  written), the effects of \<^verbatim>\<open>processAudio\<close> are: the write of the temporary file, the
  call of the transcription client, whatever that call and the callback do, and
  last one \<^verbatim>\<open>unlink\<close> of the same temporary file; no other \<^verbatim>\<open>unlink\<close> occurs. This
  holds for every outcome of the transcription (a text, a filtered result, a
  throw) and of the callback. A failing \<^verbatim>\<open>unlink\<close> changes neither the result nor the
  effects.
\<close>

theorem processAudio_unlinks_once:
  assumes "listenerOptions s = Some opts"
    and "int (length (concat chunks)) + 36 \<le> 4294967295"
    and "env_write_ok env"
  shows "\<exists>wav mid.
           snd (processAudio s g u chunks env) =
             WriteFile (TempFile (tempDir s) g u (env_now env)) wav #
             Transcribe (TempFile (tempDir s) g u (env_now env)) # mid @
             [Unlink (TempFile (tempDir s) g u (env_now env))] \<and>
           \<not> list_ex is_unlink mid \<and>
           processAudio s g u chunks (env\<lparr>env_unlink_ok := False\<rparr>) =
             processAudio s g u chunks (env\<lparr>env_unlink_ok := True\<rparr>)"
proof -
  let ?n = "case env_member env of Some n \<Rightarrow> n | None \<Rightarrow> u"
  let ?ch = "case getVoiceConnection s g of
                 Some connection \<Rightarrow> (case conn_channelId connection of Some ch \<Rightarrow> ch | None \<Rightarrow> [])
               | None \<Rightarrow> []"
  let ?f = "TempFile (tempDir s) g u (env_now env)"
  have hd: "\<exists>mid. snd (processAudio_try s opts g u ?n ?ch ?f env) = Transcribe ?f # mid"
    by (auto simp: processAudio_try_def split: prod.splits sum.splits option.splits)
  then obtain mid where mid: "snd (processAudio_try s opts g u ?n ?ch ?f env) = Transcribe ?f # mid"
    by blast
  have nu: "\<not> list_ex is_unlink mid"
    using processAudio_try_filter_unlink[of s opts g u ?n ?ch ?f env] mid by simp
  have same: "processAudio s g u chunks (env\<lparr>env_unlink_ok := False\<rparr>) =
             processAudio s g u chunks (env\<lparr>env_unlink_ok := True\<rparr>)"
    by (simp only: processAudio_unlink_indep)
  show ?thesis
    using processAudio_reaches[OF assms, of g u] mid nu same by simp
qed






lemmas sample_eval = listening_state_def initial_def opts_A_def opts_B_def calm_env_def
  resp_speech_def resp_silence_def hello_world_def apiKeyOf_def getVoiceConnection_def


theorem processAudio_unlinks_once_witness:
  "listenerOptions listening_state = Some opts_A \<and>
   env_write_ok ((calm_env FetchThrows)\<lparr>env_unlink_ok := False\<rparr>) \<and>
   processAudio listening_state ''g1'' ''u1'' [[0, 0, 0, 0]]
       ((calm_env FetchThrows)\<lparr>env_unlink_ok := False\<rparr>) =
     (Inl NetworkError,
      [WriteFile (TempFile ''/tmp/clawdbot-voice'' ''g1'' ''u1'' 5000)
         (canonical_header 4 48000 2 16 @ [0, 0, 0, 0]),
       Transcribe (TempFile ''/tmp/clawdbot-voice'' ''g1'' ''u1'' 5000),
       HttpPost ''sk-A'' (Some ''ja''),
       Unlink (TempFile ''/tmp/clawdbot-voice'' ''g1'' ''u1'' 5000)]) \<and>
   (\<exists>wav mid.
      snd (processAudio listening_state ''g1'' ''u1'' [[0, 0, 0, 0]]
             ((calm_env FetchThrows)\<lparr>env_unlink_ok := False\<rparr>)) =
        WriteFile (TempFile ''/tmp/clawdbot-voice'' ''g1'' ''u1'' 5000) wav #
        Transcribe (TempFile ''/tmp/clawdbot-voice'' ''g1'' ''u1'' 5000) # mid @
        [Unlink (TempFile ''/tmp/clawdbot-voice'' ''g1'' ''u1'' 5000)] \<and>
      \<not> list_ex is_unlink mid)"
proof -
  let ?env = "(calm_env FetchThrows)\<lparr>env_unlink_ok := False\<rparr>"
  have lo: "listenerOptions listening_state = Some opts_A" by (simp add: sample_eval)
  have len: "int (length (concat [[0, 0, 0, 0 :: byte]])) + 36 \<le> 4294967295" by simp
  have w: "env_write_ok ?env" by (simp add: sample_eval)
  have n4: "length (concat [[0, 0, 0, 0 :: byte]]) = 4" by simp
  have td: "tempDir listening_state = ''/tmp/clawdbot-voice''" "env_now ?env = 5000"
    by (simp_all add: sample_eval)
  have run: "processAudio listening_state ''g1'' ''u1'' [[0, 0, 0, 0]] ?env =
     (Inl NetworkError,
      [WriteFile (TempFile ''/tmp/clawdbot-voice'' ''g1'' ''u1'' 5000)
         (canonical_header 4 48000 2 16 @ [0, 0, 0, 0]),
       Transcribe (TempFile ''/tmp/clawdbot-voice'' ''g1'' ''u1'' 5000),
       HttpPost ''sk-A'' (Some ''ja''),
       Unlink (TempFile ''/tmp/clawdbot-voice'' ''g1'' ''u1'' 5000)])"
    unfolding processAudio_reaches[OF lo len w] n4
    by (simp add: processAudio_try_def transcribeWithWhisper_def sample_eval)
  from processAudio_unlinks_once[OF lo len w, of "''g1''" "''u1''"] lo w run
  show ?thesis unfolding td by blast
qed


subsection \<open>Playback and connection state\<close>

lemmas ops_eval = run_def join_def leave_def play_def stop_def startListening_def
  handleSpeakingStart_def speakingStart_def decoderData_def decoderEnd_def forget_def
  streamError_def stopListening_def isListening_def isConnected_def getChannelId_def
  find_capture_def ok_join_def Let_def


lemma joined_state_eq: "joined_state =
  (initial ''/tmp/clawdbot-voice'')\<lparr>ready := True, connections := [''g1'' \<mapsto>
     \<lparr>conn_status = Ready, conn_channelId = Some ''c1'', conn_subscribed = False,
      conn_speakingHandlers = []\<rparr>]\<rparr>"
  by (simp add: joined_state_def ops_eval sample_eval)

lemma capturing_state_eq: "capturing_state =
  (initial ''/tmp/clawdbot-voice'')\<lparr>ready := True, 
     listenerOptions := Some opts_A,
     activeListeners := [''g1'' \<mapsto> 0],
     sets := (\<lambda>r. {})(0 := {''u1''}),
     nextSet := 1,
     captures := [\<lparr>cap_id = 0, cap_guild = ''g1'', cap_user = ''u1'', cap_listeners = 0,
        cap_chunks = [[0, 0, 0, 0]], cap_startTime = 1000, cap_silenceThreshold = 1500,
        cap_minSpeechDuration = 500\<rparr>],
     nextCapture := 1,
     connections := [''g1'' \<mapsto>
     \<lparr>conn_status = Ready, conn_channelId = Some ''c1'', conn_subscribed = False,
      conn_speakingHandlers = [(1500, 500)]\<rparr>]\<rparr>"
  unfolding capturing_state_def joined_state_eq
  by (simp add: ops_eval sample_eval)


text \<open>
  C6. For every guild, \<^verbatim>\<open>play\<close> fails with \<open>NotConnected\<close> when no voice connection
  exists for the guild, and, when one exists, with \<open>FileNotFound\<close> when the resolved
  path does not exist. In both cases the state it leaves is the state it found:
  no player is created or stored, and an existing player is untouched.
\<close>

theorem play_failures_keep_state:
  "(getVoiceConnection s guildId = None \<longrightarrow>
      play resolve existsSync guildId filePath volume s = (Inl (NotConnected guildId), s)) \<and>
   (getVoiceConnection s guildId \<noteq> None \<and> \<not> existsSync (resolve filePath) \<longrightarrow>
      play resolve existsSync guildId filePath volume s =
        (Inl (FileNotFound (resolve filePath)), s))"
  by (auto simp: play_def Let_def)

theorem play_failures_keep_state_witness:
  "getVoiceConnection (initial ''/tmp/clawdbot-voice'') ''g1'' = None \<and>
   play (\<lambda>p. ''/srv/'' @ p) (\<lambda>p. False) ''g1'' ''a.mp3'' None (initial ''/tmp/clawdbot-voice'') =
     (Inl (NotConnected ''g1''), initial ''/tmp/clawdbot-voice'') \<and>
   getVoiceConnection joined_state ''g1'' \<noteq> None \<and>
   \<not> (\<lambda>p. False) ((\<lambda>p. ''/srv/'' @ p) ''a.mp3'') \<and>
   play (\<lambda>p. ''/srv/'' @ p) (\<lambda>p. False) ''g1'' ''a.mp3'' None joined_state =
     (Inl (FileNotFound ''/srv/a.mp3''), joined_state)"
proof -
  have a: "getVoiceConnection (initial ''/tmp/clawdbot-voice'') ''g1'' = None"
    by (simp add: getVoiceConnection_def initial_def)
  have b: "getVoiceConnection joined_state ''g1'' \<noteq> None"
    by (simp add: getVoiceConnection_def joined_state_eq)
  from play_failures_keep_state[of "initial ''/tmp/clawdbot-voice''" "''g1''"
      "\<lambda>p. ''/srv/'' @ p" "\<lambda>p. False" "''a.mp3''" None]
    play_failures_keep_state[of joined_state "''g1''"
      "\<lambda>p. ''/srv/'' @ p" "\<lambda>p. False" "''a.mp3''" None] a b
  show ?thesis by simp
qed

text \<open>
  C7, evaluated on a run. After \<^verbatim>\<open>join\<close>, \<^verbatim>\<open>startListening\<close> and one speaking-start
  signal in guild \<^verbatim>\<open>g1\<close>, \<^verbatim>\<open>leave\<close> destroys the connection and leaves \<^verbatim>\<open>listenerOptions\<close>
  and \<^verbatim>\<open>activeListeners\<close> as they are: \<^verbatim>\<open>isListening\<close> answers true and \<^verbatim>\<open>isConnected\<close>
  answers false.
\<close>

theorem leave_keeps_listening:
  "isListening (run capturing_state [Leave ''g1'']) ''g1'' \<and>
   \<not> isConnected (run capturing_state [Leave ''g1'']) ''g1''"
  unfolding capturing_state_eq
  by (simp add: ops_eval sample_eval)


subsection \<open>Singleton, short utterances and listener options\<close>






lemma find_capture_id: "find_capture cid s = Some c \<Longrightarrow> cap_id c = cid \<and> c \<in> set (captures s)"
  by (auto simp: find_capture_def find_Some_iff)

text \<open>
  C5. When a capture ends and its elapsed time is below the minimum speech
  duration of its listener, or it has collected no chunk, the \<^verbatim>\<open>end\<close> handler makes no
  effect at all (no WAV file is written, the transcription client is not called),
  removes the user from the Set the capture was registered in, and the capture is
  gone; if that Set is still the guild's active Set, the next speaking-start signal
  of the user opens a new capture. The witness runs the default threshold of 500 ms
  against an utterance of 200 ms.
\<close>

theorem short_utterance_discarded:
  assumes "find_capture cid s = Some c"
    and "now - cap_startTime c < cap_minSpeechDuration c \<or> length (cap_chunks c) = 0"
  shows "effects (decoderEnd cid now env s) = effects s \<and>
         cap_user c \<notin> sets (decoderEnd cid now env s) (cap_listeners c) \<and>
         find_capture cid (decoderEnd cid now env s) = None \<and>
         (activeListeners s (cap_guild c) = Some (cap_listeners c) \<longrightarrow>
            length (captures (handleSpeakingStart (cap_guild c) (cap_user c) opts later
                      (decoderEnd cid now env s))) =
              Suc (length (captures (decoderEnd cid now env s))))"
proof -
  have id: "cap_id c = cid" using find_capture_id[OF assms(1)] by simp
  have e: "decoderEnd cid now env s = forget c s"
    using assms by (simp add: decoderEnd_def Let_def)
  have gone: "find_capture cid (forget c s) = None"
    by (simp add: find_capture_def forget_def id find_None_iff)
  have eff: "effects (forget c s) = effects s"
    by (simp add: forget_def)
  have free: "cap_user c \<notin> sets (forget c s) (cap_listeners c)"
    by (simp add: forget_def)
  have again: "activeListeners s (cap_guild c) = Some (cap_listeners c) \<longrightarrow>
            length (captures (handleSpeakingStart (cap_guild c) (cap_user c) opts later
                      (forget c s))) = Suc (length (captures (forget c s)))"
    by (simp add: forget_def handleSpeakingStart_def Let_def)
  show ?thesis
    unfolding e using gone eff free again by blast
qed

theorem short_utterance_discarded_witness:
  "find_capture 0 capturing_state =
     Some \<lparr>cap_id = 0, cap_guild = ''g1'', cap_user = ''u1'', cap_listeners = 0,
        cap_chunks = [[0, 0, 0, 0]], cap_startTime = 1000, cap_silenceThreshold = 1500,
        cap_minSpeechDuration = 500\<rparr> \<and>
   (1200 :: int) - 1000 < 500 \<and>
   effects (decoderEnd 0 1200 (calm_env (Response 200 [] resp_speech)) capturing_state) = [] \<and>
   ''u1'' \<notin> sets (decoderEnd 0 1200 (calm_env (Response 200 [] resp_speech)) capturing_state) 0 \<and>
   find_capture 0 (decoderEnd 0 1200 (calm_env (Response 200 [] resp_speech)) capturing_state)
     = None \<and>
   activeListeners capturing_state ''g1'' = Some 0 \<and>
   length (captures (handleSpeakingStart ''g1'' ''u1'' (1500, 500) 9000
      (decoderEnd 0 1200 (calm_env (Response 200 [] resp_speech)) capturing_state))) = 1 \<and>
   effects (decoderEnd 0 1600 (calm_env (Response 200 [] resp_speech)) capturing_state) \<noteq> []"
proof -
  let ?c = "\<lparr>cap_id = 0, cap_guild = ''g1'', cap_user = ''u1'', cap_listeners = 0,
        cap_chunks = [[0, 0, 0, 0 :: byte]], cap_startTime = 1000, cap_silenceThreshold = 1500,
        cap_minSpeechDuration = 500\<rparr>"
  have f: "find_capture 0 capturing_state = Some ?c"
    unfolding capturing_state_eq by (simp add: find_capture_def)
  have short: "1200 - cap_startTime ?c < cap_minSpeechDuration ?c \<or> length (cap_chunks ?c) = 0"
    by simp
  have e0: "effects capturing_state = []"
    unfolding capturing_state_eq by (simp add: initial_def)
  have lo: "listenerOptions (forget ?c capturing_state) = Some opts_A"
    unfolding capturing_state_eq by (simp add: forget_def)
  have len: "int (length (concat [[0, 0, 0, 0 :: byte]])) + 36 \<le> 4294967295" by simp
  have w: "env_write_ok (calm_env (Response 200 [] resp_speech))" by (simp add: calm_env_def)
  have long: "effects (decoderEnd 0 1600 (calm_env (Response 200 [] resp_speech)) capturing_state) \<noteq> []"
    using f by (simp add: decoderEnd_def Let_def processAudio_reaches[OF lo len w])
  have al: "activeListeners capturing_state ''g1'' = Some 0"
    unfolding capturing_state_eq by simp
  have caps: "captures (decoderEnd 0 1200 (calm_env (Response 200 [] resp_speech))
      capturing_state) = []"
    using f by (simp add: decoderEnd_def Let_def forget_def capturing_state_eq)
  from short_utterance_discarded[OF f short, of "calm_env (Response 200 [] resp_speech)"
      "(1500, 500)" 9000] f e0 long al caps
  show ?thesis by simp
qed











subsection \<open>Deduplication of captures\<close>

























































end
